theory Spec2Isabelle
  imports
    Complex_Main
    "HOL-Library.Multiset"
    "HOL-Library.Char_ord"
    "HOL-Library.List_Lexorder"
begin

section \<open>The expense ledger of app\_gastos.py\<close>

text \<open>
  The program is one Streamlit script over an SQLite file and pandas data frames.
  The embedding keeps the script's own names. Conventions:
  \<^item> a Python \<open>str\<close> is a \<open>string\<close> whose characters are code points below 256,
    compared by code point as Python does;
  \<^item> a Python \<open>float\<close> is idealised as a \<open>real\<close>: the script only compares amounts
    with zero, divides one by another and adds them up;
  \<^item> a calendar date is its proleptic Gregorian ordinal (\<open>date.toordinal()\<close>), an
    \<open>int\<close>. The script stores dates as \<open>'%Y-%m-%d'\<close> text, whose order under SQLite's
    comparison is the order of the ordinals for the four-digit years that
    \<open>st.date_input\<close> produces;
  \<^item> every effect a caller can observe is an \<open>evento\<close>: an SQL statement handed to
    \<open>execute\<close>, or a message shown through Streamlit;
  \<^item> an exception that leaves a function is the \<open>Inl\<close> branch of its result.
\<close>

subsection \<open>Strings\<close>

definition isspace :: "char \<Rightarrow> bool" where
  \<comment> \<open>\<open>str.isspace\<close> on the code points below 256\<close>
  "isspace c = ((of_char c :: nat) \<in> {9, 10, 11, 12, 13, 28, 29, 30, 31, 32, 133, 160})"

definition strip :: "string \<Rightarrow> string" where
  \<comment> \<open>\<open>str.strip()\<close> without arguments\<close>
  "strip s = rev (dropWhile isspace (rev (dropWhile isspace s)))"

subsection \<open>Rows, tables and the database file\<close>

record gasto =
  id_gasto :: int
  categoria :: string
  concepto :: string
  banco :: string
  monto_usd :: real
  fecha :: int

text \<open>
  A table is the list of its column names, its rows in rowid order and the counter that
  \<open>AUTOINCREMENT\<close> keeps in \<open>sqlite_sequence\<close>. A row carries the six values by role;
  renaming a column changes \<open>columnas\<close> only, as \<open>ALTER TABLE\<close> leaves the data alone.
\<close>

record tabla =
  columnas :: "string list"
  filas :: "gasto list"
  secuencia :: int

text \<open>
  The file \<open>gastos_personales.db\<close> as the script can find it: a path that
  \<open>sqlite3.connect\<close> cannot open, a file that opens but is not a database (every
  statement raises \<open>sqlite3.DatabaseError\<close>), or a database with or without the table
  \<open>gastos\<close>.
\<close>

datatype archivo = NoAbre | NoEsBase | Base "tabla option"

datatype sqlite3_error = OperationalError | DatabaseError

datatype excepcion = UnboundLocalError

datatype sentencia =
  CreateTable | AlterRenameColumn | AlterAddColumn | Insert | Select | Update | Delete

datatype texto =
    ErrorInicializar sqlite3_error
  | GastoGuardado real string string
  | ErrorGuardar sqlite3_error
  | ErrorCargar
  | NombreVacio
  | CategoriaRenombrada string string
  | ErrorActualizar sqlite3_error
  | NoEncontrado int
  | GastoEliminado int
  | ErrorEliminar sqlite3_error
  | CompletaCampos
  | TasaInvalida

datatype evento =
    Execute sentencia
  | St_error texto
  | St_success texto
  | St_warning texto
  | St_sidebar_error texto
  | St_sidebar_success texto
  | St_sidebar_warning texto

type_synonym 'a resultado = "evento list \<times> (excepcion + 'a)"

subsection \<open>guardar\_gasto\<close>

definition columnas_insert :: "string list" where
  "columnas_insert = [''categoria'', ''concepto'', ''banco'', ''monto_usd'', ''fecha'']"

definition nuevo_id :: "tabla \<Rightarrow> int" where
  \<comment> \<open>the rowid an \<open>AUTOINCREMENT\<close> key gives: one more than the largest ever used\<close>
  "nuevo_id t = fold max (map id_gasto (filas t)) (secuencia t) + 1"

definition insert_gasto ::
  "string \<Rightarrow> string \<Rightarrow> string \<Rightarrow> real \<Rightarrow> int \<Rightarrow> tabla \<Rightarrow> sqlite3_error + tabla" where
  "insert_gasto cat con ban monto f t =
     (if set columnas_insert \<subseteq> set (columnas t)
      then Inr (t\<lparr>filas := filas t @
                  [\<lparr>id_gasto = nuevo_id t, categoria = cat, concepto = con, banco = ban,
                    monto_usd = monto, fecha = f\<rparr>],
                 secuencia := nuevo_id t\<rparr>)
      else Inl OperationalError)"

definition guardar_gasto ::
  "string \<Rightarrow> string \<Rightarrow> string \<Rightarrow> real \<Rightarrow> int \<Rightarrow> archivo \<Rightarrow> archivo resultado" where
  "guardar_gasto cat con ban monto f a =
     (case a of
        NoAbre \<Rightarrow> ([St_error (ErrorGuardar OperationalError)], Inl UnboundLocalError)
      | NoEsBase \<Rightarrow> ([Execute Insert, St_error (ErrorGuardar DatabaseError)], Inr NoEsBase)
      | Base None \<Rightarrow>
          ([Execute Insert, St_error (ErrorGuardar OperationalError)], Inr (Base None))
      | Base (Some t) \<Rightarrow>
          (case insert_gasto cat con ban monto f t of
             Inl e \<Rightarrow> ([Execute Insert, St_error (ErrorGuardar e)], Inr (Base (Some t)))
           | Inr t' \<Rightarrow>
               ([Execute Insert, St_success (GastoGuardado monto con cat)],
                Inr (Base (Some t')))))"

subsection \<open>The save button\<close>

definition usd :: string where
  "usd = ''USD $''"

definition bolivares :: string where
  "bolivares = ''Bol'' @ [char_of (237::nat)] @ ''vares Bs.''"

definition opciones_moneda :: "string list" where
  "opciones_moneda = [usd, bolivares]"

text \<open>
  The conversion block of the handler: it returns \<open>valid_input\<close>, \<open>monto_final_usd\<close>
  and the warning it shows.
\<close>

definition logica_conversion ::
  "string \<Rightarrow> string \<Rightarrow> string \<Rightarrow> real \<Rightarrow> string \<Rightarrow> real \<Rightarrow> bool \<times> real \<times> evento list" where
  "logica_conversion categoria_final con ban monto_ingresado moneda tasa_cambio =
     (if categoria_final = [] \<or> con = [] \<or> ban = [] \<or> monto_ingresado \<le> 0
      then (False, 0, [St_warning CompletaCampos])
      else if moneda = bolivares
      then (if tasa_cambio \<le> 0 then (False, 0, [St_warning TasaInvalida])
            else (True, monto_ingresado / tasa_cambio, []))
      else if moneda = usd then (True, monto_ingresado, [])
      else (True, 0, []))"

definition boton_guardar ::
  "string \<Rightarrow> string \<Rightarrow> string \<Rightarrow> real \<Rightarrow> string \<Rightarrow> real \<Rightarrow> int \<Rightarrow> archivo \<Rightarrow> archivo resultado" where
  "boton_guardar categoria_final con ban monto_ingresado moneda tasa_cambio f a =
     (case logica_conversion categoria_final con ban monto_ingresado moneda tasa_cambio of
        (valid_input, monto_final_usd, avisos) \<Rightarrow>
          if valid_input
          then (case guardar_gasto (strip categoria_final) con ban monto_final_usd f a of
                  (evs, r) \<Rightarrow> (avisos @ evs, r))
          else (avisos, Inr a))"

subsection \<open>init\_db\<close>

definition columnas_gastos :: "string list" where
  "columnas_gastos = [''id'', ''categoria'', ''concepto'', ''banco'', ''monto_usd'', ''fecha'']"

definition create_table_if_not_exists :: "tabla option \<Rightarrow> tabla" where
  "create_table_if_not_exists t =
     (case t of
        None \<Rightarrow> \<lparr>columnas = columnas_gastos, filas = [], secuencia = 0\<rparr>
      | Some t' \<Rightarrow> t')"

definition alter_rename_column :: "string \<Rightarrow> string \<Rightarrow> tabla \<Rightarrow> sqlite3_error + tabla" where
  \<comment> \<open>SQLite refuses when the old column is missing or the new name is taken\<close>
  "alter_rename_column viejo nuevo t =
     (if viejo \<in> set (columnas t) \<and> nuevo \<notin> set (columnas t)
      then Inr (t\<lparr>columnas := map (\<lambda>c. if c = viejo then nuevo else c) (columnas t)\<rparr>)
      else Inl OperationalError)"

definition alter_add_column_categoria :: "tabla \<Rightarrow> sqlite3_error + tabla" where
  \<comment> \<open>\<open>ADD COLUMN categoria TEXT NOT NULL DEFAULT 'Otros'\<close>: old rows read the default\<close>
  "alter_add_column_categoria t =
     (if ''categoria'' \<in> set (columnas t) then Inl OperationalError
      else Inr (t\<lparr>columnas := columnas t @ [''categoria''],
                 filas := map (\<lambda>r. r\<lparr>categoria := ''Otros''\<rparr>) (filas t)\<rparr>))"

definition migraciones :: "tabla \<Rightarrow> tabla" where
  \<comment> \<open>the two \<open>try ... except sqlite3.OperationalError: pass\<close> blocks\<close>
  "migraciones t =
     (let t1 = (case alter_rename_column ''monto'' ''monto_usd'' t of
                  Inl e \<Rightarrow> t | Inr t' \<Rightarrow> t')
      in (case alter_add_column_categoria t1 of Inl e \<Rightarrow> t1 | Inr t' \<Rightarrow> t'))"

definition init_db :: "archivo \<Rightarrow> archivo resultado" where
  "init_db a =
     (case a of
        NoAbre \<Rightarrow> ([St_error (ErrorInicializar OperationalError)], Inl UnboundLocalError)
      | NoEsBase \<Rightarrow>
          ([Execute CreateTable, St_error (ErrorInicializar DatabaseError)], Inr NoEsBase)
      | Base t \<Rightarrow>
          ([Execute CreateTable, Execute AlterRenameColumn, Execute AlterAddColumn],
           Inr (Base (Some (migraciones (create_table_if_not_exists t))))))"

subsection \<open>cargar\_datos\<close>

text \<open>
  \<open>ORDER BY fecha DESC\<close> names no second key, and SQLite leaves the order of rows with
  equal keys open: the statement may return any arrangement of the rows whose dates do
  not increase. So loading is a relation between the file and what the call may give.
\<close>

definition order_by_fecha_desc :: "gasto list \<Rightarrow> gasto list \<Rightarrow> bool" where
  "order_by_fecha_desc rows df =
     (mset df = mset rows \<and> sorted_wrt (\<lambda>x y. fecha y \<le> fecha x) df)"

definition cargar_datos :: "archivo \<Rightarrow> gasto list resultado \<Rightarrow> bool" where
  "cargar_datos a r =
     (case a of
        NoAbre \<Rightarrow> r = ([St_error ErrorCargar], Inl UnboundLocalError)
      | NoEsBase \<Rightarrow> r = ([Execute Select, St_error ErrorCargar], Inr [])
      | Base None \<Rightarrow> r = ([Execute Select, St_error ErrorCargar], Inr [])
      | Base (Some t) \<Rightarrow>
          if set columnas_gastos \<subseteq> set (columnas t)
          then (case r of
                  (evs, Inr df) \<Rightarrow> evs = [Execute Select] \<and> order_by_fecha_desc (filas t) df
                | (evs, Inl e) \<Rightarrow> False)
          else r = ([Execute Select, St_error ErrorCargar], Inr []))"

subsection \<open>actualizar\_nombre\_categoria and eliminar\_gasto\<close>

definition update_categoria :: "string \<Rightarrow> string \<Rightarrow> tabla \<Rightarrow> sqlite3_error + tabla" where
  \<comment> \<open>\<open>UPDATE gastos SET categoria = ? WHERE categoria = ?\<close>\<close>
  "update_categoria nuevo viejo t =
     (if ''categoria'' \<in> set (columnas t)
      then Inr (t\<lparr>filas := map (\<lambda>r. if categoria r = viejo then r\<lparr>categoria := nuevo\<rparr> else r)
                                (filas t)\<rparr>)
      else Inl OperationalError)"

definition actualizar_nombre_categoria :: "string \<Rightarrow> string \<Rightarrow> archivo \<Rightarrow> archivo resultado" where
  "actualizar_nombre_categoria old_name new_name a =
     (if strip new_name = [] then ([St_sidebar_error NombreVacio], Inr a)
      else
        (case a of
           NoAbre \<Rightarrow>
             ([St_sidebar_error (ErrorActualizar OperationalError)], Inl UnboundLocalError)
         | NoEsBase \<Rightarrow>
             ([Execute Update, St_sidebar_error (ErrorActualizar DatabaseError)], Inr NoEsBase)
         | Base None \<Rightarrow>
             ([Execute Update, St_sidebar_error (ErrorActualizar OperationalError)],
              Inr (Base None))
         | Base (Some t) \<Rightarrow>
             (case update_categoria (strip new_name) old_name t of
                Inl e \<Rightarrow>
                  ([Execute Update, St_sidebar_error (ErrorActualizar e)], Inr (Base (Some t)))
              | Inr t' \<Rightarrow>
                  ([Execute Update, St_sidebar_success (CategoriaRenombrada old_name new_name)],
                   Inr (Base (Some t'))))))"

definition delete_id :: "int \<Rightarrow> tabla \<Rightarrow> sqlite3_error + tabla \<times> nat" where
  \<comment> \<open>\<open>DELETE FROM gastos WHERE id = ?\<close>; the number is \<open>conn.total_changes\<close>\<close>
  "delete_id i t =
     (if ''id'' \<in> set (columnas t)
      then Inr (t\<lparr>filas := filter (\<lambda>r. id_gasto r \<noteq> i) (filas t)\<rparr>,
                length (filter (\<lambda>r. id_gasto r = i) (filas t)))
      else Inl OperationalError)"

definition eliminar_gasto :: "int \<Rightarrow> archivo \<Rightarrow> archivo resultado" where
  "eliminar_gasto gasto_id a =
     (case a of
        NoAbre \<Rightarrow> ([St_sidebar_error (ErrorEliminar OperationalError)], Inl UnboundLocalError)
      | NoEsBase \<Rightarrow>
          ([Execute Delete, St_sidebar_error (ErrorEliminar DatabaseError)], Inr NoEsBase)
      | Base None \<Rightarrow>
          ([Execute Delete, St_sidebar_error (ErrorEliminar OperationalError)], Inr (Base None))
      | Base (Some t) \<Rightarrow>
          (case delete_id gasto_id t of
             Inl e \<Rightarrow> ([Execute Delete, St_sidebar_error (ErrorEliminar e)], Inr (Base (Some t)))
           | Inr (t', total_changes) \<Rightarrow>
               if total_changes = 0
               then ([Execute Delete, St_sidebar_warning (NoEncontrado gasto_id)],
                     Inr (Base (Some t')))
               else ([Execute Delete, St_sidebar_success (GastoEliminado gasto_id)],
                     Inr (Base (Some t')))))"

subsection \<open>The start of the script\<close>

text \<open>
  \<open>init_db()\<close> and then \<open>df_gastos = cargar_datos()\<close>. An exception that leaves
  \<open>init_db\<close> ends the run; otherwise the load follows, whatever \<open>init_db\<close> reported.
\<close>

definition inicio :: "archivo \<Rightarrow> (archivo \<times> gasto list) resultado \<Rightarrow> bool" where
  "inicio a r =
     (case init_db a of
        (evs, Inl e) \<Rightarrow> r = (evs, Inl e)
      | (evs, Inr a') \<Rightarrow>
          take (length evs) (fst r) = evs \<and>
          (case snd r of
             Inl e \<Rightarrow> cargar_datos a' (drop (length evs) (fst r), Inl e)
           | Inr (a'', df) \<Rightarrow> a'' = a' \<and> cargar_datos a' (drop (length evs) (fst r), Inr df)))"

subsection \<open>The reports\<close>










text \<open>
  \<open>df.set_index('fecha').resample('D')['monto_usd'].sum()\<close>: one bin per day from the
  earliest date to the latest, each starting at zero, and every row added to the bin of
  its date. The script computes it only when the frame has rows.
\<close>

fun sumar_en_dia :: "int \<Rightarrow> real \<Rightarrow> (int \<times> real) list \<Rightarrow> (int \<times> real) list" where
  "sumar_en_dia d v [] = []"
| "sumar_en_dia d v ((d', s) # bins) =
     (if d = d' then (d', s + v) # bins else (d', s) # sumar_en_dia d v bins)"

definition gastos_tiempo :: "gasto list \<Rightarrow> (int \<times> real) list" where
  "gastos_tiempo df =
     (if df = [] then []
      else fold (\<lambda>r. sumar_en_dia (fecha r) (monto_usd r)) df
             (map (\<lambda>d. (d, 0)) [Min (fecha ` set df) .. Max (fecha ` set df)]))"




text \<open>
  \<open>datetime.date(y, m, d).toordinal()\<close>, for writing dates down. The constructor raises
  \<open>ValueError\<close> on a year, month or day out of range: that is \<open>None\<close>.
\<close>

definition is_leap :: "int \<Rightarrow> bool" where
  "is_leap y = (y mod 4 = 0 \<and> (y mod 100 \<noteq> 0 \<or> y mod 400 = 0))"

definition days_before_year :: "int \<Rightarrow> int" where
  "days_before_year y = (y - 1) * 365 + (y - 1) div 4 - (y - 1) div 100 + (y - 1) div 400"

definition days_in_month :: "int \<Rightarrow> int \<Rightarrow> int" where
  "days_in_month y m =
     (if m = 2 \<and> is_leap y then 29
      else [31, 28, 31, 30, 31, 30, 31, 31, 30, 31, 30, 31] ! nat (m - 1))"

definition days_before_month :: "int \<Rightarrow> int \<Rightarrow> int" where
  "days_before_month y m =
     [0, 31, 59, 90, 120, 151, 181, 212, 243, 273, 304, 334] ! nat (m - 1)
       + (if 2 < m \<and> is_leap y then 1 else 0)"

definition toordinal :: "int \<Rightarrow> int \<Rightarrow> int \<Rightarrow> int option" where
  "toordinal y m d =
     (if 1 \<le> y \<and> y \<le> 9999 \<and> 1 \<le> m \<and> m \<le> 12 \<and> 1 \<le> d \<and> d \<le> days_in_month y m
      then Some (days_before_year y + days_before_month y m + d)
      else None)"

subsection \<open>Example ledgers\<close>

text \<open>
  The ledger of the scenario with three records (738886 is 2024-01-01 and 738888 is
  2024-01-03), a fresh table, and a table from before the amount column was renamed and
  the category column was added.
\<close>

definition tabla_nueva :: tabla where
  "tabla_nueva = \<lparr>columnas = columnas_gastos, filas = [], secuencia = 0\<rparr>"

definition gasto_a :: gasto where
  "gasto_a = \<lparr>id_gasto = 1, categoria = ''Hogar'', concepto = ''Mercado'', banco = ''Efectivo'',
               monto_usd = 10, fecha = 738886\<rparr>"

definition gasto_b :: gasto where
  "gasto_b = \<lparr>id_gasto = 2, categoria = ''Cine'', concepto = ''Entradas'', banco = ''Banco A'',
               monto_usd = 20, fecha = 738886\<rparr>"

definition gasto_c :: gasto where
  "gasto_c = \<lparr>id_gasto = 3, categoria = ''Hogar'', concepto = ''Luz'', banco = ''Banco A'',
               monto_usd = 5, fecha = 738888\<rparr>"

definition tabla_ejemplo :: tabla where
  "tabla_ejemplo = \<lparr>columnas = columnas_gastos, filas = [gasto_a, gasto_b, gasto_c], secuencia = 3\<rparr>"

definition tabla_antigua :: tabla where
  "tabla_antigua =
     \<lparr>columnas = [''id'', ''concepto'', ''banco'', ''monto'', ''fecha''],
      filas = [\<lparr>id_gasto = 1, categoria = [], concepto = ''Mercado'', banco = ''Efectivo'',
                monto_usd = 10, fecha = 738886\<rparr>],
      secuencia = 1\<rparr>"

definition tabla_migrada :: tabla where
  "tabla_migrada =
     \<lparr>columnas = [''id'', ''concepto'', ''banco'', ''monto_usd'', ''fecha'', ''categoria''],
      filas = [\<lparr>id_gasto = 1, categoria = ''Otros'', concepto = ''Mercado'', banco = ''Efectivo'',
                monto_usd = 10, fecha = 738886\<rparr>],
      secuencia = 1\<rparr>"

definition tabla_un_gasto :: tabla where
  "tabla_un_gasto = \<lparr>columnas = columnas_gastos, filas = [gasto_a], secuencia = 1\<rparr>"

definition tabla_dos_gastos :: tabla where
  "tabla_dos_gastos = \<lparr>columnas = columnas_gastos, filas = [gasto_a, gasto_b], secuencia = 2\<rparr>"



section \<open>Facts about the examples\<close>

lemma toordinal_ejemplo:
  "toordinal 2024 1 1 = Some 738886"
  "toordinal 2024 1 2 = Some 738887"
  "toordinal 2024 1 3 = Some 738888"
  by (simp_all add: toordinal_def days_before_year_def days_before_month_def
      days_in_month_def is_leap_def)

lemmas ejemplo_defs = tabla_nueva_def gasto_a_def gasto_b_def gasto_c_def tabla_ejemplo_def
  tabla_antigua_def tabla_migrada_def columnas_gastos_def columnas_insert_def

section \<open>Currency normalisation\<close>

lemma usd_neq_bolivares: "usd \<noteq> bolivares"
  by (simp add: usd_def bolivares_def)

text \<open>
  C1. With the three text fields filled in: an amount above zero in USD is kept as it is,
  whatever the rate; an amount above zero in Bolivares with a rate above zero is divided
  by the rate; and for either currency the input is refused exactly when the amount is
  not above zero or the currency is Bolivares and the rate is not above zero. A refused
  input executes no statement and leaves the file as it was.
\<close>

theorem normalizacion_moneda:
  assumes "categoria_final \<noteq> []" and "con \<noteq> []" and "ban \<noteq> []"
  shows "(0 < monto \<longrightarrow>
            logica_conversion categoria_final con ban monto usd tasa = (True, monto, []))
       \<and> (0 < monto \<and> 0 < tasa \<longrightarrow>
            logica_conversion categoria_final con ban monto bolivares tasa
              = (True, monto / tasa, []))
       \<and> (moneda \<in> set opciones_moneda \<longrightarrow>
            (fst (logica_conversion categoria_final con ban monto moneda tasa) = False
               \<longleftrightarrow> monto \<le> 0 \<or> (moneda = bolivares \<and> tasa \<le> 0)))
       \<and> (fst (logica_conversion categoria_final con ban monto moneda tasa) = False \<longrightarrow>
            snd (boton_guardar categoria_final con ban monto moneda tasa f a) = Inr a
            \<and> (\<forall>s. Execute s
                  \<notin> set (fst (boton_guardar categoria_final con ban monto moneda tasa f a))))"
  using assms usd_neq_bolivares
  by (auto simp: logica_conversion_def boton_guardar_def opciones_moneda_def
           split: if_splits prod.splits)

theorem normalizacion_moneda_witness:
  "''Hogar'' \<noteq> [] \<and> ''Cine'' \<noteq> [] \<and> ''Efectivo'' \<noteq> [] \<and> (0::real) < 1000 \<and> (0::real) < 50
   \<and> bolivares \<in> set opciones_moneda
   \<and> logica_conversion ''Hogar'' ''Cine'' ''Efectivo'' 1000 usd 50 = (True, 1000, [])
   \<and> logica_conversion ''Hogar'' ''Cine'' ''Efectivo'' 1000 bolivares 50 = (True, 20, [])
   \<and> fst (logica_conversion ''Hogar'' ''Cine'' ''Efectivo'' 1000 bolivares 0) = False
   \<and> snd (boton_guardar ''Hogar'' ''Cine'' ''Efectivo'' 1000 bolivares 0 738886 (Base None))
       = Inr (Base None)"
  using normalizacion_moneda [of "''Hogar''" "''Cine''" "''Efectivo''" 1000 50 bolivares]
    normalizacion_moneda [of "''Hogar''" "''Cine''" "''Efectivo''" 1000 0 bolivares 738886
      "Base None"]
  by (simp add: opciones_moneda_def)

section \<open>Renaming a category\<close>

text \<open>
  C3, as the code has it. When the new name is empty after trimming, the file is left as
  it is and only the sidebar error is shown; no count is returned on any path. Otherwise,
  on a database whose table has the category column, every row whose category equals the
  old name gets the new name with its surrounding whitespace trimmed, and every other
  row, and every other field of the rows that matched, stays as it was.
\<close>

theorem renombrar_categoria:
  "(strip new_name = [] \<longrightarrow>
      actualizar_nombre_categoria old_name new_name a = ([St_sidebar_error NombreVacio], Inr a))
 \<and> (strip new_name \<noteq> [] \<and> ''categoria'' \<in> set (columnas t) \<longrightarrow>
      (\<exists>t'. actualizar_nombre_categoria old_name new_name (Base (Some t))
               = ([Execute Update, St_sidebar_success (CategoriaRenombrada old_name new_name)],
                  Inr (Base (Some t')))
           \<and> columnas t' = columnas t \<and> secuencia t' = secuencia t
           \<and> length (filas t') = length (filas t)
           \<and> (\<forall>i < length (filas t).
                 (categoria (filas t ! i) = old_name \<longrightarrow>
                    filas t' ! i = (filas t ! i)\<lparr>categoria := strip new_name\<rparr>)
               \<and> (categoria (filas t ! i) \<noteq> old_name \<longrightarrow> filas t' ! i = filas t ! i))))"
  by (auto simp: actualizar_nombre_categoria_def update_categoria_def)

theorem renombrar_categoria_witness:
  "strip [] = [] \<and> strip '' Ocio '' \<noteq> [] \<and> ''categoria'' \<in> set (columnas tabla_ejemplo)
   \<and> actualizar_nombre_categoria ''Cine'' [] (Base (Some tabla_ejemplo))
       = ([St_sidebar_error NombreVacio], Inr (Base (Some tabla_ejemplo)))
   \<and> (\<exists>t'. snd (actualizar_nombre_categoria ''Cine'' '' Ocio '' (Base (Some tabla_ejemplo)))
              = Inr (Base (Some t'))
          \<and> map categoria (filas t') = [''Hogar'', ''Ocio'', ''Hogar''])"
  using renombrar_categoria [of "[]" "''Cine''" "Base (Some tabla_ejemplo)" tabla_ejemplo]
    renombrar_categoria [of "'' Ocio ''" "''Cine''" "Base (Some tabla_ejemplo)" tabla_ejemplo]
  by (simp add: ejemplo_defs strip_def isspace_def actualizar_nombre_categoria_def
      update_categoria_def)

text \<open>
  At a new name with spaces around it the rows do not get the name as it was given.
\<close>

theorem renombrar_categoria_counterexample:
  "strip '' Ocio '' \<noteq> []
   \<and> snd (actualizar_nombre_categoria ''Cine'' '' Ocio '' (Base (Some tabla_ejemplo)))
       = Inr (Base (Some (tabla_ejemplo\<lparr>filas := [gasto_a, gasto_b\<lparr>categoria := ''Ocio''\<rparr>, gasto_c]\<rparr>)))
   \<and> categoria gasto_b = ''Cine''
   \<and> categoria (gasto_b\<lparr>categoria := ''Ocio''\<rparr>) \<noteq> '' Ocio ''"
  by (simp add: ejemplo_defs strip_def isspace_def actualizar_nombre_categoria_def
      update_categoria_def)

section \<open>Deleting by id\<close>

text \<open>
  C4. On a database whose table has the id column: deleting an id that no row has shows
  the not-found warning and leaves the table as it was; deleting the id of a row, ids
  being unique, shows the success message and removes that row and no other.
\<close>

theorem eliminar_por_id:
  assumes "''id'' \<in> set (columnas t)"
  shows "(gasto_id \<notin> id_gasto ` set (filas t) \<longrightarrow>
            eliminar_gasto gasto_id (Base (Some t))
              = ([Execute Delete, St_sidebar_warning (NoEncontrado gasto_id)], Inr (Base (Some t))))
       \<and> (filas t = xs @ r # ys \<and> id_gasto r = gasto_id \<and> distinct (map id_gasto (filas t)) \<longrightarrow>
            eliminar_gasto gasto_id (Base (Some t))
              = ([Execute Delete, St_sidebar_success (GastoEliminado gasto_id)],
                 Inr (Base (Some (t\<lparr>filas := xs @ ys\<rparr>)))))"
proof (intro conjI impI)
  assume "gasto_id \<notin> id_gasto ` set (filas t)"
  then have "filter (\<lambda>r. id_gasto r \<noteq> gasto_id) (filas t) = filas t"
    and "filter (\<lambda>r. id_gasto r = gasto_id) (filas t) = []"
    by (auto simp: filter_id_conv filter_empty_conv)
  with assms show "eliminar_gasto gasto_id (Base (Some t))
      = ([Execute Delete, St_sidebar_warning (NoEncontrado gasto_id)], Inr (Base (Some t)))"
    by (simp add: eliminar_gasto_def delete_id_def)
next
  assume h: "filas t = xs @ r # ys \<and> id_gasto r = gasto_id \<and> distinct (map id_gasto (filas t))"
  then have f: "filas t = xs @ r # ys" and i: "id_gasto r = gasto_id"
    and d: "distinct (map id_gasto (filas t))"
    by blast+
  from d have "gasto_id \<notin> set (map id_gasto xs)" and "gasto_id \<notin> set (map id_gasto ys)"
    unfolding f using i by auto
  then have nx: "\<forall>x \<in> set xs. id_gasto x \<noteq> gasto_id" and ny: "\<forall>y \<in> set ys. id_gasto y \<noteq> gasto_id"
    by (metis image_eqI set_map)+
  have "filter (\<lambda>r. id_gasto r \<noteq> gasto_id) (filas t) = xs @ ys"
    unfolding f using i nx ny by (simp add: filter_id_conv)
  moreover have "filter (\<lambda>r. id_gasto r = gasto_id) (filas t) \<noteq> []"
    unfolding f using i by simp
  ultimately show "eliminar_gasto gasto_id (Base (Some t))
      = ([Execute Delete, St_sidebar_success (GastoEliminado gasto_id)],
         Inr (Base (Some (t\<lparr>filas := xs @ ys\<rparr>))))"
    using assms by (simp add: eliminar_gasto_def delete_id_def)
qed

theorem eliminar_por_id_witness:
  "''id'' \<in> set (columnas tabla_ejemplo) \<and> 7 \<notin> id_gasto ` set (filas tabla_ejemplo)
   \<and> filas tabla_ejemplo = [gasto_a] @ gasto_b # [gasto_c] \<and> id_gasto gasto_b = 2
   \<and> distinct (map id_gasto (filas tabla_ejemplo))
   \<and> eliminar_gasto 7 (Base (Some tabla_ejemplo))
       = ([Execute Delete, St_sidebar_warning (NoEncontrado 7)], Inr (Base (Some tabla_ejemplo)))
   \<and> eliminar_gasto 2 (Base (Some tabla_ejemplo))
       = ([Execute Delete, St_sidebar_success (GastoEliminado 2)],
          Inr (Base (Some (tabla_ejemplo\<lparr>filas := [gasto_a, gasto_c]\<rparr>))))"
  using eliminar_por_id [of tabla_ejemplo 7]
    eliminar_por_id [of tabla_ejemplo 2 "[gasto_a]" gasto_b "[gasto_c]"]
  by (simp add: ejemplo_defs)

section \<open>What the save button persists\<close>

lemma guardar_gasto_cambia:
  assumes "snd (guardar_gasto cat con ban m f a) = Inr a'" and "a' \<noteq> a"
  shows "\<exists>t. a = Base (Some t)
           \<and> a' = Base (Some (t\<lparr>filas := filas t @
                    [\<lparr>id_gasto = nuevo_id t, categoria = cat, concepto = con, banco = ban,
                      monto_usd = m, fecha = f\<rparr>], secuencia := nuevo_id t\<rparr>))"
  using assms
  by (cases a)
     (auto simp: guardar_gasto_def insert_gasto_def split: option.splits if_splits)

text \<open>
  C9, as the code has it. With the currency one of the two the form offers: when the
  button changes the file, it has added one row, whose amount is above zero and whose
  description and payment method are the texts entered, both non-empty as entered
  (they are not trimmed, so a blank text passes); the category text entered was
  non-empty. An empty field, an amount not above zero, or Bolivares with a rate not
  above zero executes no statement and leaves the file as it was.
\<close>

theorem registro_guardado:
  assumes "moneda \<in> set opciones_moneda"
  shows "(snd (boton_guardar categoria_final con ban monto moneda tasa f a) = Inr a' \<and> a' \<noteq> a \<longrightarrow>
           (\<exists>t r. a = Base (Some t)
                \<and> a' = Base (Some (t\<lparr>filas := filas t @ [r], secuencia := id_gasto r\<rparr>))
                \<and> 0 < monto_usd r \<and> concepto r = con \<and> con \<noteq> [] \<and> banco r = ban \<and> ban \<noteq> []
                \<and> categoria_final \<noteq> [] \<and> fecha r = f))
       \<and> (categoria_final = [] \<or> con = [] \<or> ban = [] \<or> monto \<le> 0
            \<or> (moneda = bolivares \<and> tasa \<le> 0) \<longrightarrow>
           snd (boton_guardar categoria_final con ban monto moneda tasa f a) = Inr a
           \<and> (\<forall>s. Execute s
                 \<notin> set (fst (boton_guardar categoria_final con ban monto moneda tasa f a))))"
proof (rule conjI; rule impI)
  assume h: "snd (boton_guardar categoria_final con ban monto moneda tasa f a) = Inr a' \<and> a' \<noteq> a"
  obtain v m av where lc:
    "logica_conversion categoria_final con ban monto moneda tasa = (v, m, av)"
    by (cases "logica_conversion categoria_final con ban monto moneda tasa") auto
  have v: v
    using h lc by (auto simp: boton_guardar_def split: prod.splits if_splits)
  then have campos: "categoria_final \<noteq> []" "con \<noteq> []" "ban \<noteq> []" and m: "0 < m"
    using lc assms usd_neq_bolivares
    by (auto simp: logica_conversion_def opciones_moneda_def split: if_splits)
  have "snd (guardar_gasto (strip categoria_final) con ban m f a) = Inr a'"
    using h lc v by (auto simp: boton_guardar_def split: prod.splits)
  from guardar_gasto_cambia [OF this] h obtain t where
    "a = Base (Some t)"
    "a' = Base (Some (t\<lparr>filas := filas t @
            [\<lparr>id_gasto = nuevo_id t, categoria = strip categoria_final, concepto = con,
              banco = ban, monto_usd = m, fecha = f\<rparr>], secuencia := nuevo_id t\<rparr>))"
    by blast
  then show "\<exists>t r. a = Base (Some t)
                \<and> a' = Base (Some (t\<lparr>filas := filas t @ [r], secuencia := id_gasto r\<rparr>))
                \<and> 0 < monto_usd r \<and> concepto r = con \<and> con \<noteq> [] \<and> banco r = ban \<and> ban \<noteq> []
                \<and> categoria_final \<noteq> [] \<and> fecha r = f"
    using campos m
    by (intro exI [of _ t] exI [of _ "\<lparr>id_gasto = nuevo_id t, categoria = strip categoria_final,
          concepto = con, banco = ban, monto_usd = m, fecha = f\<rparr>"]) simp
next
  assume "categoria_final = [] \<or> con = [] \<or> ban = [] \<or> monto \<le> 0
            \<or> (moneda = bolivares \<and> tasa \<le> 0)"
  then show "snd (boton_guardar categoria_final con ban monto moneda tasa f a) = Inr a
           \<and> (\<forall>s. Execute s
                 \<notin> set (fst (boton_guardar categoria_final con ban monto moneda tasa f a)))"
    by (auto simp: boton_guardar_def logica_conversion_def)
qed

theorem registro_guardado_witness:
  "bolivares \<in> set opciones_moneda
   \<and> snd (boton_guardar ''Salud'' ''Farmacia'' ''Banco A'' 1000 bolivares 50 738890
            (Base (Some tabla_ejemplo)))
       = Inr (Base (Some (tabla_ejemplo\<lparr>filas := filas tabla_ejemplo @
            [\<lparr>id_gasto = 4, categoria = ''Salud'', concepto = ''Farmacia'', banco = ''Banco A'',
              monto_usd = 20, fecha = 738890\<rparr>], secuencia := 4\<rparr>)))
   \<and> boton_guardar ''Salud'' [] ''Banco A'' 1000 bolivares 50 738890 (Base (Some tabla_ejemplo))
       = ([St_warning CompletaCampos], Inr (Base (Some tabla_ejemplo)))"
  using registro_guardado [of bolivares "''Salud''" "''Farmacia''" "''Banco A''" 1000 50 738890
      "Base (Some tabla_ejemplo)"]
    registro_guardado [of bolivares "''Salud''" "[]" "''Banco A''" 1000 50 738890
      "Base (Some tabla_ejemplo)"]
  by (simp add: ejemplo_defs opciones_moneda_def boton_guardar_def logica_conversion_def
      guardar_gasto_def insert_gasto_def nuevo_id_def strip_def isspace_def usd_neq_bolivares
      usd_def bolivares_def)

text \<open>
  A description of one space is persisted, though it is empty after trimming.
\<close>

theorem registro_guardado_counterexample:
  "snd (boton_guardar ''Hogar'' '' '' ''Efectivo'' 10 usd 0 738886 (Base (Some tabla_nueva)))
     = Inr (Base (Some \<lparr>columnas = columnas_gastos,
          filas = [\<lparr>id_gasto = 1, categoria = ''Hogar'', concepto = '' '', banco = ''Efectivo'',
                    monto_usd = 10, fecha = 738886\<rparr>],
          secuencia = 1\<rparr>))
   \<and> strip '' '' = []"
  by (simp add: ejemplo_defs opciones_moneda_def boton_guardar_def logica_conversion_def
      guardar_gasto_def insert_gasto_def nuevo_id_def strip_def isspace_def usd_neq_bolivares
      usd_def bolivares_def)

section \<open>Schema initialisation\<close>

lemma migraciones_rename_falla:
  "alter_rename_column ''monto'' ''monto_usd'' (migraciones t) = Inl OperationalError"
  by (auto simp: migraciones_def alter_rename_column_def alter_add_column_categoria_def Let_def)

lemma migraciones_add_falla:
  "alter_add_column_categoria (migraciones t) = Inl OperationalError"
  by (auto simp: migraciones_def alter_rename_column_def alter_add_column_categoria_def Let_def)

lemma migraciones_idem: "migraciones (migraciones t) = migraciones t"
  using migraciones_rename_falla [of t] migraciones_add_falla [of t]
  by (simp add: migraciones_def [of "migraciones t"])

text \<open>
  C7. When \<open>init_db\<close> returns without reporting an error, running it again on the file
  it left gives the same events and the same file: table, columns and rows. On that file
  both \<open>ALTER TABLE\<close> statements raise \<open>OperationalError\<close>, which the script swallows.
\<close>

theorem init_db_idempotente:
  assumes "init_db a = (evs, Inr a')" and "\<forall>e. St_error (ErrorInicializar e) \<notin> set evs"
  shows "init_db a' = (evs, Inr a')
       \<and> (\<exists>t. a' = Base (Some t)
              \<and> alter_rename_column ''monto'' ''monto_usd'' t = Inl OperationalError
              \<and> alter_add_column_categoria t = Inl OperationalError)"
proof (cases a)
  case NoAbre
  with assms show ?thesis by (simp add: init_db_def)
next
  case NoEsBase
  with assms show ?thesis by (auto simp: init_db_def)
next
  case (Base t)
  with assms have a': "a' = Base (Some (migraciones (create_table_if_not_exists t)))"
    and evs: "evs = [Execute CreateTable, Execute AlterRenameColumn, Execute AlterAddColumn]"
    by (auto simp: init_db_def)
  show ?thesis
    unfolding a' evs
    by (simp add: init_db_def create_table_if_not_exists_def migraciones_idem
        migraciones_rename_falla migraciones_add_falla)
qed

lemma init_db_antigua:
  "init_db (Base (Some tabla_antigua))
     = ([Execute CreateTable, Execute AlterRenameColumn, Execute AlterAddColumn],
        Inr (Base (Some tabla_migrada)))"
  by (simp add: init_db_def create_table_if_not_exists_def migraciones_def
      alter_rename_column_def alter_add_column_categoria_def tabla_antigua_def tabla_migrada_def)

lemma init_db_nueva:
  "init_db (Base None)
     = ([Execute CreateTable, Execute AlterRenameColumn, Execute AlterAddColumn],
        Inr (Base (Some tabla_nueva)))"
  by (simp add: init_db_def create_table_if_not_exists_def migraciones_def
      alter_rename_column_def alter_add_column_categoria_def tabla_nueva_def columnas_gastos_def)

theorem init_db_idempotente_witness:
  "init_db (Base (Some tabla_antigua))
     = ([Execute CreateTable, Execute AlterRenameColumn, Execute AlterAddColumn],
        Inr (Base (Some tabla_migrada)))
   \<and> init_db (Base (Some tabla_migrada))
     = ([Execute CreateTable, Execute AlterRenameColumn, Execute AlterAddColumn],
        Inr (Base (Some tabla_migrada)))
   \<and> init_db (Base None)
     = ([Execute CreateTable, Execute AlterRenameColumn, Execute AlterAddColumn],
        Inr (Base (Some tabla_nueva)))
   \<and> init_db (Base (Some tabla_nueva))
     = ([Execute CreateTable, Execute AlterRenameColumn, Execute AlterAddColumn],
        Inr (Base (Some tabla_nueva)))"
  using init_db_idempotente [OF init_db_antigua] init_db_idempotente [OF init_db_nueva]
    init_db_antigua init_db_nueva
  by simp

section \<open>Failures of the storage layer\<close>

text \<open>
  C10. When \<open>sqlite3.connect\<close> itself fails, \<open>cargar_datos\<close> shows its error and then
  leaves through \<open>UnboundLocalError\<close>, raised by \<open>if conn:\<close> in the \<open>finally\<close> block:
  it returns no frame. When the connection opens and the query fails, it returns the
  empty frame.
\<close>

theorem cargar_datos_sin_conexion:
  "cargar_datos NoAbre ([St_error ErrorCargar], Inl UnboundLocalError)
   \<and> (\<forall>evs df. \<not> cargar_datos NoAbre (evs, Inr df))
   \<and> cargar_datos NoEsBase ([Execute Select, St_error ErrorCargar], Inr [])
   \<and> cargar_datos (Base None) ([Execute Select, St_error ErrorCargar], Inr [])"
  by (simp add: cargar_datos_def)

text \<open>
  C8, as the code has it. When \<open>init_db\<close> reports a failure and returns, the script goes
  on: a run of the start exists, and every run executes the \<open>SELECT\<close> of
  \<open>cargar_datos\<close> after the events of \<open>init_db\<close>, on the file that \<open>init_db\<close> left.
\<close>

theorem inicio_tras_fallo:
  assumes "init_db a = (evs, Inr a')" and "St_error (ErrorInicializar e) \<in> set evs"
  shows "(\<exists>r. inicio a r)
       \<and> (\<forall>r. inicio a r \<longrightarrow>
            (\<exists>evs' df. fst r = evs @ evs' \<and> Execute Select \<in> set evs' \<and> snd r = Inr (a', df)))"
proof (cases a)
  case NoAbre
  with assms show ?thesis by (simp add: init_db_def)
next
  case (Base t)
  with assms show ?thesis by (auto simp: init_db_def)
next
  case NoEsBase
  with assms have a': "a' = NoEsBase"
    and evs: "evs = [Execute CreateTable, St_error (ErrorInicializar DatabaseError)]"
    by (auto simp: init_db_def)
  have "inicio a (evs @ [Execute Select, St_error ErrorCargar], Inr (NoEsBase, []))"
    by (simp add: NoEsBase inicio_def init_db_def evs cargar_datos_def)
  moreover have "\<exists>evs' df. fst r = evs @ evs' \<and> Execute Select \<in> set evs' \<and> snd r = Inr (a', df)"
    if "inicio a r" for r
  proof -
    have n: "length evs = Suc (Suc 0)"
      by (simp add: evs)
    from that have "take (Suc (Suc 0)) (fst r) = evs
        \<and> drop (Suc (Suc 0)) (fst r) = [Execute Select, St_error ErrorCargar]
        \<and> snd r = Inr (NoEsBase, [])"
      by (auto simp: NoEsBase inicio_def init_db_def evs cargar_datos_def
          split: sum.splits prod.splits)
    then have t: "take (Suc (Suc 0)) (fst r) = evs"
      and d: "drop (Suc (Suc 0)) (fst r) = [Execute Select, St_error ErrorCargar]"
      and s: "snd r = Inr (NoEsBase, [])"
      by blast+
    have "fst r = take (Suc (Suc 0)) (fst r) @ drop (Suc (Suc 0)) (fst r)"
      by (simp only: append_take_drop_id)
    then have "fst r = evs @ [Execute Select, St_error ErrorCargar]"
      unfolding t d .
    then show ?thesis
      using s a' by auto
  qed
  ultimately show ?thesis by blast
qed

lemma init_db_no_es_base:
  "init_db NoEsBase
     = ([Execute CreateTable, St_error (ErrorInicializar DatabaseError)], Inr NoEsBase)"
  by (simp add: init_db_def)

text \<open>
  On a file that is not a database the failure of \<open>init_db\<close> is reported and the load
  is attempted all the same.
\<close>

theorem inicio_tras_fallo_counterexample:
  "init_db NoEsBase
     = ([Execute CreateTable, St_error (ErrorInicializar DatabaseError)], Inr NoEsBase)
   \<and> inicio NoEsBase
       ([Execute CreateTable, St_error (ErrorInicializar DatabaseError),
         Execute Select, St_error ErrorCargar], Inr (NoEsBase, []))"
  by (simp add: inicio_def init_db_def cargar_datos_def)

theorem inicio_tras_fallo_witness:
  "init_db NoEsBase
     = ([Execute CreateTable, St_error (ErrorInicializar DatabaseError)], Inr NoEsBase)
   \<and> St_error (ErrorInicializar DatabaseError)
       \<in> set [Execute CreateTable, St_error (ErrorInicializar DatabaseError)]
   \<and> (\<exists>r. inicio NoEsBase r)"
  using inicio_tras_fallo [OF init_db_no_es_base, of DatabaseError] init_db_no_es_base
  by simp

section \<open>Loading the ledger\<close>

lemma order_by_sort_key:
  "order_by_fecha_desc rows (sort_key (\<lambda>g. - fecha g) rows)"
proof -
  have "sorted (map (\<lambda>g. - fecha g) (sort_key (\<lambda>g. - fecha g) rows))"
    by (rule sorted_sort_key)
  then have "sorted_wrt (\<lambda>x y. fecha y \<le> fecha x) (sort_key (\<lambda>g. - fecha g) rows)"
    by (simp add: sorted_map)
  then show ?thesis
    by (simp add: order_by_fecha_desc_def)
qed

lemma order_by_rev_sort_key:
  "order_by_fecha_desc rows (rev (sort_key fecha rows))"
proof -
  have "sorted (map fecha (sort_key fecha rows))"
    by (rule sorted_sort_key)
  then have "sorted_wrt (\<lambda>x y. fecha x \<le> fecha y) (sort_key fecha rows)"
    by (simp add: sorted_map)
  then have "sorted_wrt (\<lambda>x y. fecha y \<le> fecha x) (rev (sort_key fecha rows))"
    by (simp add: sorted_wrt_rev)
  then show ?thesis
    by (simp add: order_by_fecha_desc_def)
qed

text \<open>
  C2, as the code has it. On a database whose table has the six columns, every result of
  \<open>cargar_datos\<close> is a frame with exactly the rows of the table, no error shown, in
  which dates never increase from one row to the next; an empty table gives an empty
  frame. The order between rows of equal date is not fixed by the query: the arrangement
  that keeps equal dates in insertion order and the one that reverses them are both
  possible results.
\<close>

theorem cargar_datos_orden:
  assumes "set columnas_gastos \<subseteq> set (columnas t)"
  shows "(\<forall>r. cargar_datos (Base (Some t)) r \<longrightarrow>
            (\<exists>df. r = ([Execute Select], Inr df)
                 \<and> mset df = mset (filas t)
                 \<and> (\<forall>i j. i < j \<and> j < length df \<longrightarrow> fecha (df ! j) \<le> fecha (df ! i))
                 \<and> (filas t = [] \<longrightarrow> df = [])))
       \<and> cargar_datos (Base (Some t)) ([Execute Select], Inr (sort_key (\<lambda>g. - fecha g) (filas t)))
       \<and> cargar_datos (Base (Some t)) ([Execute Select], Inr (rev (sort_key fecha (filas t))))"
proof (intro conjI allI impI)
  fix r
  assume "cargar_datos (Base (Some t)) r"
  with assms obtain df where r: "r = ([Execute Select], Inr df)"
    and o: "order_by_fecha_desc (filas t) df"
    by (cases r; cases "snd r") (auto simp: cargar_datos_def)
  from o have m: "mset df = mset (filas t)"
    and s: "sorted_wrt (\<lambda>x y. fecha y \<le> fecha x) df"
    by (simp_all add: order_by_fecha_desc_def)
  from s have "\<forall>i j. i < j \<and> j < length df \<longrightarrow> fecha (df ! j) \<le> fecha (df ! i)"
    by (simp add: sorted_wrt_iff_nth_less)
  moreover from m have "filas t = [] \<longrightarrow> df = []"
    by auto
  ultimately show "\<exists>df. r = ([Execute Select], Inr df)
                 \<and> mset df = mset (filas t)
                 \<and> (\<forall>i j. i < j \<and> j < length df \<longrightarrow> fecha (df ! j) \<le> fecha (df ! i))
                 \<and> (filas t = [] \<longrightarrow> df = [])"
    using r m by blast
next
  show "cargar_datos (Base (Some t)) ([Execute Select], Inr (sort_key (\<lambda>g. - fecha g) (filas t)))"
    using assms by (simp add: cargar_datos_def order_by_sort_key)
next
  show "cargar_datos (Base (Some t)) ([Execute Select], Inr (rev (sort_key fecha (filas t))))"
    using assms by (simp add: cargar_datos_def order_by_rev_sort_key)
qed

theorem cargar_datos_orden_witness:
  "set columnas_gastos \<subseteq> set (columnas tabla_ejemplo)
   \<and> cargar_datos (Base (Some tabla_ejemplo)) ([Execute Select], Inr [gasto_c, gasto_a, gasto_b])
   \<and> cargar_datos (Base (Some tabla_ejemplo)) ([Execute Select], Inr [gasto_c, gasto_b, gasto_a])
   \<and> set columnas_gastos \<subseteq> set (columnas tabla_nueva)
   \<and> cargar_datos (Base (Some tabla_nueva)) ([Execute Select], Inr [])"
  using cargar_datos_orden [of tabla_ejemplo] cargar_datos_orden [of tabla_nueva]
  by (simp add: ejemplo_defs)

text \<open>
  Two expenses saved one after the other with the same date: a load may return the one
  saved first before the one saved last.
\<close>

theorem cargar_datos_orden_counterexample:
  "snd (init_db (Base None)) = Inr (Base (Some tabla_nueva))
   \<and> toordinal 2024 1 1 = Some 738886
   \<and> snd (guardar_gasto ''Hogar'' ''Mercado'' ''Efectivo'' 10 738886
            (Base (Some tabla_nueva))) = Inr (Base (Some tabla_un_gasto))
   \<and> snd (guardar_gasto ''Cine'' ''Entradas'' ''Banco A'' 20 738886
            (Base (Some tabla_un_gasto))) = Inr (Base (Some tabla_dos_gastos))
   \<and> cargar_datos (Base (Some tabla_dos_gastos)) ([Execute Select], Inr [gasto_a, gasto_b])
   \<and> fecha gasto_a = fecha gasto_b
   \<and> id_gasto gasto_a < id_gasto gasto_b"
  by (simp add: ejemplo_defs toordinal_ejemplo tabla_un_gasto_def tabla_dos_gastos_def init_db_def
      create_table_if_not_exists_def migraciones_def alter_rename_column_def
      alter_add_column_categoria_def guardar_gasto_def insert_gasto_def nuevo_id_def
      cargar_datos_def order_by_fecha_desc_def)

section \<open>The daily series\<close>

lemma sumar_en_dia_map:
  "distinct ds \<Longrightarrow>
   sumar_en_dia d v (map (\<lambda>x. (x, g x)) ds) = map (\<lambda>x. (x, (g(d := g d + v)) x)) ds"
  by (induction ds) auto

lemma fold_sumar_en_dia:
  "distinct ds \<Longrightarrow>
   fold (\<lambda>r. sumar_en_dia (fecha r) (monto_usd r)) df (map (\<lambda>x. (x, g x)) ds)
     = map (\<lambda>x. (x, g x + sum_list (map monto_usd (filter (\<lambda>r. fecha r = x) df)))) ds"
proof (induction df arbitrary: g)
  case Nil
  then show ?case by simp
next
  case (Cons r df)
  let ?g = "g(fecha r := g (fecha r) + monto_usd r)"
  have "fold (\<lambda>r. sumar_en_dia (fecha r) (monto_usd r)) (r # df) (map (\<lambda>x. (x, g x)) ds)
      = fold (\<lambda>r. sumar_en_dia (fecha r) (monto_usd r)) df (map (\<lambda>x. (x, ?g x)) ds)"
    using Cons.prems by (simp add: sumar_en_dia_map)
  also have "\<dots> = map (\<lambda>x. (x, ?g x + sum_list (map monto_usd (filter (\<lambda>r. fecha r = x) df)))) ds"
    using Cons.prems by (rule Cons.IH)
  also have "\<dots> = map (\<lambda>x. (x, g x + sum_list (map monto_usd (filter (\<lambda>r. fecha r = x) (r # df))))) ds"
    by (rule map_cong) auto
  finally show ?case .
qed

lemma gastos_tiempo_eq:
  assumes "df \<noteq> []"
  shows "gastos_tiempo df
    = map (\<lambda>d. (d, sum_list (map monto_usd (filter (\<lambda>r. fecha r = d) df))))
        [Min (fecha ` set df) .. Max (fecha ` set df)]"
  using assms fold_sumar_en_dia [of "[Min (fecha ` set df) .. Max (fecha ` set df)]" df "\<lambda>d. 0"]
  by (simp add: gastos_tiempo_def)

lemma sum_list_filter_mset:
  "sum_list (map f (filter P xs)) = sum_mset (image_mset f (filter_mset P (mset xs)))"
  by (induction xs) auto

lemma gastos_tiempo_mset:
  assumes "mset df = mset df'"
  shows "gastos_tiempo df = gastos_tiempo df'"
proof (cases "df = []")
  case True
  with assms show ?thesis by (simp add: gastos_tiempo_def)
next
  case False
  with assms have ne: "df' \<noteq> []" by auto
  from assms have s: "set df = set df'" by (rule mset_eq_setD)
  show ?thesis
    unfolding gastos_tiempo_eq [OF False] gastos_tiempo_eq [OF ne] s
    by (simp add: sum_list_filter_mset assms)
qed

text \<open>
  C5. For a frame with rows, the days of \<open>gastos_tiempo\<close> are exactly the calendar days
  from the earliest date to the latest, each once and in ascending order, and the value
  of a day is the sum of the amounts of the rows of that date, zero when there is none.
  Whatever frame \<open>cargar_datos\<close> returns for the ledger with amounts 10 and 20 on
  2024-01-01 and 5 on 2024-01-03, the series is 30, 0, 5 on the three days.
\<close>

theorem gastos_tiempo_diario:
  assumes "df \<noteq> []"
  shows "map fst (gastos_tiempo df) = [Min (fecha ` set df) .. Max (fecha ` set df)]
       \<and> (\<forall>d v. (d, v) \<in> set (gastos_tiempo df) \<longrightarrow>
             v = sum_list (map monto_usd (filter (\<lambda>r. fecha r = d) df)))
       \<and> toordinal 2024 1 1 = Some 738886 \<and> toordinal 2024 1 2 = Some 738887
       \<and> toordinal 2024 1 3 = Some 738888
       \<and> (\<forall>evs df'. cargar_datos (Base (Some tabla_ejemplo)) (evs, Inr df') \<longrightarrow>
             gastos_tiempo df' = [(738886, 30), (738887, 0), (738888, 5)])"
proof (intro conjI allI impI)
  show "map fst (gastos_tiempo df) = [Min (fecha ` set df) .. Max (fecha ` set df)]"
    by (simp add: gastos_tiempo_eq [OF assms] comp_def)
next
  fix d v
  assume "(d, v) \<in> set (gastos_tiempo df)"
  then show "v = sum_list (map monto_usd (filter (\<lambda>r. fecha r = d) df))"
    by (auto simp: gastos_tiempo_eq [OF assms])
next
  fix evs df'
  assume "cargar_datos (Base (Some tabla_ejemplo)) (evs, Inr df')"
  then have "mset df' = mset [gasto_a, gasto_b, gasto_c]"
    by (simp add: cargar_datos_def tabla_ejemplo_def order_by_fecha_desc_def split: if_splits)
  then have "gastos_tiempo df' = gastos_tiempo [gasto_a, gasto_b, gasto_c]"
    by (rule gastos_tiempo_mset)
  also have "\<dots> = [(738886, 30), (738887, 0), (738888, 5)]"
    by (simp add: gastos_tiempo_def ejemplo_defs)
  finally show "gastos_tiempo df' = [(738886, 30), (738887, 0), (738888, 5)]" .
qed (simp_all add: toordinal_ejemplo)

theorem gastos_tiempo_diario_witness:
  "[gasto_c, gasto_a, gasto_b] \<noteq> []
   \<and> cargar_datos (Base (Some tabla_ejemplo)) ([Execute Select], Inr [gasto_c, gasto_a, gasto_b])
   \<and> map fst (gastos_tiempo [gasto_c, gasto_a, gasto_b]) = [738886, 738887, 738888]
   \<and> gastos_tiempo [gasto_c, gasto_a, gasto_b] = [(738886, 30), (738887, 0), (738888, 5)]"
proof -
  have c: "cargar_datos (Base (Some tabla_ejemplo))
             ([Execute Select], Inr [gasto_c, gasto_a, gasto_b])"
    by (simp add: cargar_datos_def order_by_fecha_desc_def ejemplo_defs)
  have n: "[gasto_c, gasto_a, gasto_b] \<noteq> []"
    by simp
  from gastos_tiempo_diario [OF n] c
  have "gastos_tiempo [gasto_c, gasto_a, gasto_b] = [(738886, 30), (738887, 0), (738888, 5)]"
    by blast
  with c show ?thesis
    by simp
qed

section \<open>Sums by category\<close>

subsection \<open>The grouped series\<close>








subsection \<open>The largest entries\<close>
















end
